theory Spec2Isabelle
  imports Complex_Main
begin

section \<open>The Geiger pulse aggregator and its broadcast hub\<close>

text \<open>
  A shallow embedding of \<^verbatim>\<open>geiger.py\<close> (\<^verbatim>\<open>GeigerConfig\<close>, \<^verbatim>\<open>GeigerState\<close>,
  \<^verbatim>\<open>GeigerReader.start\<close>), of \<^verbatim>\<open>WSManager.broadcast\<close> (the same text in
  \<^verbatim>\<open>main.py\<close> and \<^verbatim>\<open>app.py\<close>) and of \<^verbatim>\<open>start_geiger_reader\<close> in \<^verbatim>\<open>app.py\<close>.

  Conventions.
  \<^item> Python \<^verbatim>\<open>float\<close> timestamps and rates are idealised as \<^typ>\<open>real\<close>: rounding,
    infinities and NaN are outside the model. Python \<^verbatim>\<open>int\<close> is \<^typ>\<open>int\<close>.
  \<^item> Every read of the clock \<^verbatim>\<open>time.time()\<close> is an explicit argument \<open>now\<close>.
  \<^item> Each method runs under the object's lock, so a call is one atomic state
    transformer; the interleaving of threads is not part of the model.
  \<^item> \<^verbatim>\<open>app.py\<close> carries its own copy of \<^verbatim>\<open>GeigerState\<close>. It reads the capacities from
    the globals \<^verbatim>\<open>MAX_DELTAS\<close> and \<^verbatim>\<open>MAX_SERIES\<close> instead of \<^verbatim>\<open>cfg\<close>, keeps one more
    buffer (\<^verbatim>\<open>timestamps\<close>) and reports one more key (\<^verbatim>\<open>seconds\<close>); the fields
    modelled here are computed by the same statements.
\<close>

subsection \<open>Python list slicing\<close>

text \<open>
  \<^verbatim>\<open>xs[i:]\<close> for an arbitrary integer \<open>i\<close>: a negative start counts from the end and is
  clamped at the front, a start beyond the end gives the empty list. Note that \<^verbatim>\<open>xs[-0:]\<close>
  is \<^verbatim>\<open>xs[0:]\<close>, the whole list.
\<close>

definition py_slice_from :: "int \<Rightarrow> 'a list \<Rightarrow> 'a list" where
  "py_slice_from i xs =
     (let n = int (length xs);
          j = (if i < 0 then max 0 (n + i) else min i n)
      in drop (nat j) xs)"

subsection \<open>Configuration and aggregator state\<close>

record GeigerConfig =
  pin :: int
  verbose :: bool
  mock :: bool
  mock_rate :: real
  max_deltas :: int
  max_series :: int

text \<open>The defaults of the dataclass.\<close>

definition default_config :: GeigerConfig where
  "default_config =
     \<lparr>pin = 18, verbose = False, mock = False, mock_rate = 5,
      max_deltas = 2000, max_series = 3600\<rparr>"

text \<open>
  The attributes of \<^verbatim>\<open>GeigerState\<close>. \<open>total_cnt\<close> is \<^verbatim>\<open>self.total\<close> and
  \<open>current_second_count\<close> is \<^verbatim>\<open>self._current_second_count\<close>.
\<close>

record GeigerState =
  cfg :: GeigerConfig
  t0 :: real
  total_cnt :: int
  last_ts :: "real option"
  deltas :: "real list"
  per_second :: "int list"
  current_second_count :: int

definition reset :: "GeigerState \<Rightarrow> real \<Rightarrow> GeigerState" where
  "reset s now =
     s\<lparr>t0 := now, total_cnt := 0, last_ts := None, deltas := [],
       per_second := [], current_second_count := 0\<rparr>"

text \<open>\<^verbatim>\<open>GeigerState.__init__\<close>: store the configuration, then \<^verbatim>\<open>reset()\<close>.\<close>

definition init_state :: "GeigerConfig \<Rightarrow> real \<Rightarrow> GeigerState" where
  "init_state c now =
     reset \<lparr>cfg = c, t0 = 0, total_cnt = 0, last_ts = None, deltas = [],
            per_second = [], current_second_count = 0\<rparr> now"

text \<open>The two statements that append \<open>dt\<close> and trim the buffer (geiger.py, lines 54 to 56).\<close>

definition append_delta :: "GeigerState \<Rightarrow> real \<Rightarrow> GeigerState" where
  "append_delta s dt =
     (let s1 = s\<lparr>deltas := deltas s @ [dt]\<rparr>
      in if int (length (deltas s1)) > max_deltas (cfg s1)
         then s1\<lparr>deltas := py_slice_from (- max_deltas (cfg s1)) (deltas s1)\<rparr>
         else s1)"

definition on_pulse :: "GeigerState \<Rightarrow> real \<Rightarrow> GeigerState" where
  "on_pulse s ts =
     (let s1 = s\<lparr>total_cnt := total_cnt s + 1\<rparr>;
          s2 = (case last_ts s1 of
                  None \<Rightarrow> s1
                | Some l \<Rightarrow>
                    (let dt = ts - l
                     in if dt \<ge> 0 then append_delta s1 dt else s1))
      in s2\<lparr>last_ts := Some ts,
            current_second_count := current_second_count s2 + 1\<rparr>)"

definition tick_second :: "GeigerState \<Rightarrow> GeigerState" where
  "tick_second s =
     (let s1 = s\<lparr>per_second := per_second s @ [current_second_count s]\<rparr>;
          s2 = s1\<lparr>current_second_count := 0\<rparr>
      in if int (length (per_second s2)) > max_series (cfg s2)
         then s2\<lparr>per_second := py_slice_from (- max_series (cfg s2)) (per_second s2)\<rparr>
         else s2)"

subsection \<open>Snapshot\<close>

text \<open>The dictionary returned by \<^verbatim>\<open>snapshot()\<close>; field \<open>snap_k\<close> is the key \<^verbatim>\<open>k\<close>.\<close>

record Snapshot =
  snap_total :: int
  snap_elapsed :: real
  snap_last_age :: "real option"
  snap_per_second :: "int list"
  snap_running_mean :: "real list"
  snap_rate_bq :: real
  snap_rate_err :: real
  snap_deltas :: "real list"

text \<open>
  The loop \<^verbatim>\<open>for i, c in enumerate(self.per_second, start=1)\<close>: \<open>s\<close> is the running
  sum, \<open>i\<close> the index of the next element, \<open>acc\<close> the list built so far.
\<close>

fun running_mean_loop :: "int \<Rightarrow> nat \<Rightarrow> int list \<Rightarrow> real list \<Rightarrow> real list" where
  "running_mean_loop s i [] acc = acc"
| "running_mean_loop s i (c # cs) acc =
     running_mean_loop (s + c) (Suc i) cs (acc @ [real_of_int (s + c) / real i])"

text \<open>
  Truthiness of an optional float, as in \<^verbatim>\<open>x if self.last_ts else None\<close>: \<^verbatim>\<open>None\<close>
  and \<^verbatim>\<open>0.0\<close> are both false.
\<close>

definition truthy :: "real option \<Rightarrow> bool" where
  "truthy x = (case x of None \<Rightarrow> False | Some v \<Rightarrow> v \<noteq> 0)"

definition snapshot :: "GeigerState \<Rightarrow> real \<Rightarrow> Snapshot" where
  "snapshot s now =
     (let elapsed = max 0 (now - t0 s);
          (rate, err) =
             (if elapsed > 0
              then (real_of_int (total_cnt s) / elapsed,
                    if total_cnt s > 0 then sqrt (real_of_int (total_cnt s)) / elapsed else 0)
              else (0, 0));
          running_mean = running_mean_loop 0 1 (per_second s) [];
          last_age = (if truthy (last_ts s) then Some (now - the (last_ts s)) else None)
      in \<lparr>snap_total = total_cnt s,
          snap_elapsed = elapsed,
          snap_last_age = last_age,
          snap_per_second = per_second s,
          snap_running_mean = running_mean,
          snap_rate_bq = rate,
          snap_rate_err = err,
          snap_deltas = deltas s\<rparr>)"

subsection \<open>Sequences of operations\<close>

datatype operation = OnPulse real | TickSecond | Reset real

fun apply_operation :: "GeigerState \<Rightarrow> operation \<Rightarrow> GeigerState" where
  "apply_operation s (OnPulse ts) = on_pulse s ts"
| "apply_operation s TickSecond = tick_second s"
| "apply_operation s (Reset now) = reset s now"

definition run :: "GeigerState \<Rightarrow> operation list \<Rightarrow> GeigerState" where
  "run s ops = foldl apply_operation s ops"

subsection \<open>The broadcast hub\<close>

text \<open>
  \<^verbatim>\<open>WSManager\<close> keeps the set \<^verbatim>\<open>self.clients\<close>. One call \<^verbatim>\<open>await ws.send_json(message)\<close>
  either returns, or raises an exception that \<^verbatim>\<open>except Exception\<close> catches, or raises one
  outside \<^verbatim>\<open>Exception\<close> (a cancellation, say), which leaves \<^verbatim>\<open>broadcast\<close>.
\<close>

datatype send_outcome = Sent | Raises_Exception | Raises_BaseException

record 'ws WSManager =
  clients :: "'ws set"

definition connect :: "'ws WSManager \<Rightarrow> 'ws \<Rightarrow> 'ws WSManager" where
  "connect m ws = m\<lparr>clients := insert ws (clients m)\<rparr>"

definition disconnect :: "'ws WSManager \<Rightarrow> 'ws \<Rightarrow> 'ws WSManager" where
  "disconnect m ws = m\<lparr>clients := clients m - {ws}\<rparr>"

text \<open>
  The loop \<^verbatim>\<open>for ws in clients\<close> of \<^verbatim>\<open>broadcast\<close>. \<open>received\<close> lists the subscribers whose
  \<^verbatim>\<open>send_json\<close> returned, \<open>dead\<close> is the list of that name. \<open>None\<close>: an exception left the loop.
\<close>

fun send_loop ::
  "('ws \<Rightarrow> send_outcome) \<Rightarrow> 'ws list \<Rightarrow> 'ws list \<Rightarrow> 'ws list \<Rightarrow> ('ws list \<times> 'ws list) option"
where
  "send_loop send [] received dead = Some (received, dead)"
| "send_loop send (ws # rest) received dead =
     (case send ws of
        Sent \<Rightarrow> send_loop send rest (received @ [ws]) dead
      | Raises_Exception \<Rightarrow> send_loop send rest received (dead @ [ws])
      | Raises_BaseException \<Rightarrow> None)"

text \<open>The loop \<^verbatim>\<open>for ws in dead: self.clients.discard(ws)\<close>.\<close>

definition discard_all :: "'ws list \<Rightarrow> 'ws set \<Rightarrow> 'ws set" where
  "discard_all dead cs = foldl (\<lambda>c ws. c - {ws}) cs dead"

text \<open>
  \<open>order\<close> is the list \<^verbatim>\<open>list(self.clients)\<close>: Python fixes no iteration order for a set, so
  the caller of the model supplies one. The result is the hub afterwards and the subscribers
  that received the message.
\<close>

definition broadcast ::
  "('ws \<Rightarrow> send_outcome) \<Rightarrow> 'ws list \<Rightarrow> 'ws WSManager \<Rightarrow> ('ws WSManager \<times> 'ws list) option"
where
  "broadcast send order m =
     (case send_loop send order [] [] of
        None \<Rightarrow> None
      | Some (received, dead) \<Rightarrow>
          Some (if dead \<noteq> [] then m\<lparr>clients := discard_all dead (clients m)\<rparr> else m,
                received))"

subsection \<open>Starting the pulse source\<close>

text \<open>
  Python exceptions. \<open>Failed_to_add_edge_detection pin cause\<close> is the
  \<^verbatim>\<open>RuntimeError\<close> that \<^verbatim>\<open>GeigerReader.start\<close> raises \<^verbatim>\<open>from\<close> the library's one.
\<close>

datatype py_exception =
  ImportError | OSError | ValueError | RuntimeError | ZeroDivisionError
| Failed_to_add_edge_detection int py_exception

fun is_RuntimeError :: "py_exception \<Rightarrow> bool" where
  "is_RuntimeError RuntimeError = True"
| "is_RuntimeError (Failed_to_add_edge_detection p c) = True"
| "is_RuntimeError e = False"

datatype edge_handler = When_activated | When_deactivated

datatype pulse_source = Synthetic | Hardware_gpiozero edge_handler | Hardware_RPi_GPIO

text \<open>One constructor for each \<^verbatim>\<open>print\<close> statement of the two start operations.\<close>

datatype printed_line =
  Warning_no_GPIO
| Detalle py_exception
| Mock_on real
| Edge_detect_on int

text \<open>
  \<^verbatim>\<open>app.py\<close>: the module globals read by \<^verbatim>\<open>start_geiger_reader\<close>, and what each step of its
  \<^verbatim>\<open>try\<close> block does on this machine (\<open>None\<close>: it returns).
\<close>

record app_globals =
  PIN :: int
  PULL_UP :: bool
  MOCK :: bool
  MOCK_RATE :: real

record gpiozero_env =
  import_gpiozero :: "py_exception option"
  LGPIOFactory :: "py_exception option"
  DigitalInputDevice :: "py_exception option"

record app_reader =
  source :: pulse_source
  printed :: "printed_line list"
  environ_GEIGER_MOCK_set :: bool

definition acquire_gpiozero :: "app_globals \<Rightarrow> gpiozero_env \<Rightarrow> py_exception + edge_handler" where
  "acquire_gpiozero g env =
     (case import_gpiozero env of
        Some e \<Rightarrow> Inl e
      | None \<Rightarrow>
          (case LGPIOFactory env of
             Some e \<Rightarrow> Inl e
           | None \<Rightarrow>
               (case DigitalInputDevice env of
                  Some e \<Rightarrow> Inl e
                | None \<Rightarrow> Inr (if \<not> PULL_UP g then When_activated else When_deactivated))))"

definition start_geiger_reader :: "app_globals \<Rightarrow> gpiozero_env \<Rightarrow> py_exception + app_reader" where
  "start_geiger_reader g env =
     (if MOCK g
      then Inr \<lparr>source = Synthetic, printed = [], environ_GEIGER_MOCK_set = False\<rparr>
      else (case acquire_gpiozero g env of
              Inr h \<Rightarrow>
                Inr \<lparr>source = Hardware_gpiozero h, printed = [], environ_GEIGER_MOCK_set = False\<rparr>
            | Inl e \<Rightarrow>
                Inr \<lparr>source = Synthetic, printed = [Warning_no_GPIO, Detalle e],
                     environ_GEIGER_MOCK_set = True\<rparr>))"

text \<open>
  \<^verbatim>\<open>geiger.py\<close>: the reader object, and what each call into \<^verbatim>\<open>RPi.GPIO\<close> does on this
  machine. \<open>reader_source = None\<close>: no source is delivering pulses.
\<close>

record GeigerReader =
  reader_cfg :: GeigerConfig
  started :: bool
  reader_source :: "pulse_source option"
  reader_printed :: "printed_line list"

record gpio_env =
  gpio_cleanup :: "py_exception option"
  gpio_setmode :: "py_exception option"
  gpio_setup :: "py_exception option"
  gpio_remove_event_detect :: "py_exception option"
  gpio_add_event_detect :: "py_exception option"

definition new_reader :: "GeigerConfig \<Rightarrow> GeigerReader" where
  "new_reader c =
     \<lparr>reader_cfg = c, started = False, reader_source = None, reader_printed = []\<rparr>"

definition start_mock :: "GeigerReader \<Rightarrow> GeigerReader" where
  "start_mock r =
     r\<lparr>reader_printed :=
          reader_printed r @ (if verbose (reader_cfg r) then [Mock_on (mock_rate (reader_cfg r))] else []),
       reader_source := Some Synthetic\<rparr>"

text \<open>
  \<^verbatim>\<open>GeigerReader.start\<close>. The first component is the exception that leaves the call, if any;
  the second is the reader afterwards. \<^verbatim>\<open>GPIO.cleanup()\<close> and \<^verbatim>\<open>GPIO.remove_event_detect\<close>
  sit in \<^verbatim>\<open>try ... except Exception: pass\<close>, so their outcome changes nothing;
  \<^verbatim>\<open>GPIO.setmode\<close> and \<^verbatim>\<open>GPIO.setup\<close> are not guarded.
\<close>

definition GeigerReader_start ::
  "gpio_env \<Rightarrow> GeigerReader \<Rightarrow> py_exception option \<times> GeigerReader"
where
  "GeigerReader_start env r =
     (if started r then (None, r)
      else
        (let r1 = r\<lparr>started := True\<rparr>
         in if mock (reader_cfg r1) then (None, start_mock r1)
            else
              (case gpio_setmode env of
                 Some e \<Rightarrow> (Some e, r1)
               | None \<Rightarrow>
                   (case gpio_setup env of
                      Some e \<Rightarrow> (Some e, r1)
                    | None \<Rightarrow>
                        (case gpio_add_event_detect env of
                           Some e \<Rightarrow>
                             (if is_RuntimeError e
                              then (Some (Failed_to_add_edge_detection (pin (reader_cfg r1)) e), r1)
                              else (Some e, r1))
                         | None \<Rightarrow>
                             (None,
                              r1\<lparr>reader_source := Some Hardware_RPi_GPIO,
                                 reader_printed :=
                                   reader_printed r1 @
                                   (if verbose (reader_cfg r1)
                                    then [Edge_detect_on (pin (reader_cfg r1))] else [])\<rparr>))))))"

subsection \<open>Auxiliary notions for the statements\<close>

text \<open>Both buffers are within their configured capacities.\<close>

definition within_capacity :: "GeigerState \<Rightarrow> bool" where
  "within_capacity s \<longleftrightarrow>
     int (length (deltas s)) \<le> max_deltas (cfg s) \<and>
     int (length (per_second s)) \<le> max_series (cfg s)"

text \<open>A run of \<^verbatim>\<open>on_pulse\<close> calls, one for each timestamp of the list, in order.\<close>

definition pulses :: "GeigerState \<Rightarrow> real list \<Rightarrow> GeigerState" where
  "pulses s tss = foldl on_pulse s tss"

text \<open>The configuration obtained with \<^verbatim>\<open>GEIGER_MAX_DELTAS=0\<close> and defaults otherwise.\<close>

definition zero_capacity_config :: GeigerConfig where
  "zero_capacity_config = default_config\<lparr>max_deltas := 0\<rparr>"

text \<open>
  Python's true division of floats raises on a zero divisor, whereas \<open>x / 0 = 0\<close> in HOL.
  The next two definitions follow the words of the specification, not the source:
  ``\<^verbatim>\<open>rate = total / elapsed\<close> if \<^verbatim>\<open>elapsed > 0\<close> else \<^verbatim>\<open>0\<close>'' and
  ``\<^verbatim>\<open>rate_err = sqrt(total) / elapsed\<close> if \<^verbatim>\<open>total > 0\<close> else \<^verbatim>\<open>0\<close>''.
\<close>

definition py_truediv :: "real \<Rightarrow> real \<Rightarrow> py_exception + real" where
  "py_truediv a b = (if b = 0 then Inl ZeroDivisionError else Inr (a / b))"

definition spec_rate :: "int \<Rightarrow> real \<Rightarrow> py_exception + real" where
  "spec_rate tot elapsed =
     (if elapsed > 0 then py_truediv (real_of_int tot) elapsed else Inr 0)"

definition spec_rate_err :: "int \<Rightarrow> real \<Rightarrow> py_exception + real" where
  "spec_rate_err tot elapsed =
     (if tot > 0 then py_truediv (sqrt (real_of_int tot)) elapsed else Inr 0)"

section \<open>Basic facts about the operations\<close>

lemma reset_fields [simp]:
  "cfg (reset s now) = cfg s"
  "t0 (reset s now) = now"
  "total_cnt (reset s now) = 0"
  "last_ts (reset s now) = None"
  "deltas (reset s now) = []"
  "per_second (reset s now) = []"
  "current_second_count (reset s now) = 0"
  by (simp_all add: reset_def)

lemma snapshot_elapsed [simp]: "snap_elapsed (snapshot s now) = max 0 (now - t0 s)"
  by (simp add: snapshot_def Let_def split: prod.splits)

lemma py_slice_from_zero: "py_slice_from 0 xs = xs"
  by (simp add: py_slice_from_def)

lemma py_slice_from_neg:
  "0 < m \<Longrightarrow> py_slice_from (- m) xs = drop (length xs - nat m) xs"
proof -
  assume m: "0 < m"
  have "nat (max 0 (int (length xs) + - m)) = length xs - nat m"
    using m by (simp add: max_def nat_diff_distrib') 
  with m show ?thesis
    by (simp add: py_slice_from_def Let_def)
qed

lemma length_py_slice_from_neg:
  "0 < m \<Longrightarrow> length (py_slice_from (- m) xs) = min (length xs) (nat m)"
  by (simp add: py_slice_from_neg) 

lemma append_delta_fields:
  "cfg (append_delta s dt) = cfg s"
  "t0 (append_delta s dt) = t0 s"
  "total_cnt (append_delta s dt) = total_cnt s"
  "last_ts (append_delta s dt) = last_ts s"
  "per_second (append_delta s dt) = per_second s"
  "current_second_count (append_delta s dt) = current_second_count s"
  by (simp_all add: append_delta_def Let_def)

lemma append_delta_deltas:
  "deltas (append_delta s dt) =
     (if int (length (deltas s)) + 1 > max_deltas (cfg s)
      then py_slice_from (- max_deltas (cfg s)) (deltas s @ [dt])
      else deltas s @ [dt])"
  by (simp add: append_delta_def Let_def)

lemma on_pulse_fields:
  "cfg (on_pulse s ts) = cfg s"
  "t0 (on_pulse s ts) = t0 s"
  "total_cnt (on_pulse s ts) = total_cnt s + 1"
  "last_ts (on_pulse s ts) = Some ts"
  "per_second (on_pulse s ts) = per_second s"
  "current_second_count (on_pulse s ts) = current_second_count s + 1"
  by (simp_all add: on_pulse_def Let_def append_delta_fields split: option.splits)

lemma on_pulse_deltas:
  "deltas (on_pulse s ts) =
     (case last_ts s of
        None \<Rightarrow> deltas s
      | Some l \<Rightarrow> if l \<le> ts then deltas (append_delta s (ts - l)) else deltas s)"
  by (simp add: on_pulse_def Let_def append_delta_def split: option.splits)

lemma tick_second_fields:
  "cfg (tick_second s) = cfg s"
  "t0 (tick_second s) = t0 s"
  "total_cnt (tick_second s) = total_cnt s"
  "last_ts (tick_second s) = last_ts s"
  "deltas (tick_second s) = deltas s"
  "current_second_count (tick_second s) = 0"
  by (simp_all add: tick_second_def Let_def)

lemma tick_second_per_second:
  "per_second (tick_second s) =
     (if int (length (per_second s)) + 1 > max_series (cfg s)
      then py_slice_from (- max_series (cfg s)) (per_second s @ [current_second_count s])
      else per_second s @ [current_second_count s])"
  by (simp add: tick_second_def Let_def)

subsection \<open>Capacities: what holds when both are at least 1\<close>

lemma length_py_slice_from_neg_le:
  assumes "0 < m"
  shows "int (length (py_slice_from (- m) xs)) \<le> m"
proof -
  have "length (py_slice_from (- m) xs) \<le> nat m"
    using assms by (simp add: length_py_slice_from_neg)
  then show ?thesis using assms by linarith
qed

lemma append_delta_bounded:
  assumes "1 \<le> max_deltas (cfg s)"
  shows "int (length (deltas (append_delta s dt))) \<le> max_deltas (cfg s)"
proof (cases "int (length (deltas s)) + 1 > max_deltas (cfg s)")
  case True
  then show ?thesis
    using assms length_py_slice_from_neg_le [of "max_deltas (cfg s)" "deltas s @ [dt]"]
    by (simp add: append_delta_deltas)
next
  case False
  then show ?thesis by (simp add: append_delta_deltas)
qed

lemma on_pulse_bounded:
  assumes "1 \<le> max_deltas (cfg s)" "int (length (deltas s)) \<le> max_deltas (cfg s)"
  shows "int (length (deltas (on_pulse s ts))) \<le> max_deltas (cfg s)"
  using assms append_delta_bounded [of s] by (simp add: on_pulse_deltas split: option.splits)

lemma tick_second_bounded:
  assumes "1 \<le> max_series (cfg s)"
  shows "int (length (per_second (tick_second s))) \<le> max_series (cfg s)"
proof (cases "int (length (per_second s)) + 1 > max_series (cfg s)")
  case True
  then show ?thesis
    using assms
      length_py_slice_from_neg_le [of "max_series (cfg s)" "per_second s @ [current_second_count s]"]
    by (simp add: tick_second_per_second)
next
  case False
  then show ?thesis by (simp add: tick_second_per_second)
qed

lemma apply_operation_within_capacity:
  assumes "1 \<le> max_deltas (cfg s)" "1 \<le> max_series (cfg s)" "within_capacity s"
  shows "within_capacity (apply_operation s a)"
proof (cases a)
  case (OnPulse ts)
  with assms show ?thesis
    using on_pulse_bounded [of s ts]
    by (simp add: within_capacity_def on_pulse_fields)
next
  case TickSecond
  with assms show ?thesis
    using tick_second_bounded [of s]
    by (simp add: within_capacity_def tick_second_fields)
next
  case (Reset now)
  with assms show ?thesis
    by (simp add: within_capacity_def)
qed

lemma apply_operation_cfg: "cfg (apply_operation s a) = cfg s"
  by (cases a) (simp_all add: on_pulse_fields tick_second_fields)

lemma run_within_capacity:
  assumes "1 \<le> max_deltas (cfg s)" "1 \<le> max_series (cfg s)" "within_capacity s"
  shows "within_capacity (run s ops)"
  using assms unfolding run_def
proof (induction ops arbitrary: s)
  case Nil then show ?case by simp
next
  case (Cons a ops)
  have "within_capacity (apply_operation s a)"
    using Cons.prems by (rule apply_operation_within_capacity)
  then show ?case
    using Cons.IH [of "apply_operation s a"] Cons.prems by (simp add: apply_operation_cfg)
qed

lemma reachable_within_capacity:
  assumes "1 \<le> max_deltas c" "1 \<le> max_series c"
  shows "within_capacity (run (init_state c now) ops)"
  using assms by (intro run_within_capacity) (simp_all add: init_state_def within_capacity_def)

subsection \<open>Counting pulses with non-decreasing timestamps\<close>

lemma pulses_Nil: "pulses s [] = s"
  by (simp add: pulses_def)

lemma pulses_Cons: "pulses s (t # tss) = pulses (on_pulse s t) tss"
  by (simp add: pulses_def)

lemma pulses_cfg: "cfg (pulses s tss) = cfg s"
  by (induction tss arbitrary: s) (simp_all add: pulses_Nil pulses_Cons on_pulse_fields)

lemma pulses_total: "total_cnt (pulses s tss) = total_cnt s + int (length tss)"
  by (induction tss arbitrary: s) (simp_all add: pulses_Nil pulses_Cons on_pulse_fields)

lemma append_delta_length:
  assumes "1 \<le> max_deltas (cfg s)"
  shows "length (deltas (append_delta s dt)) = min (length (deltas s) + 1) (nat (max_deltas (cfg s)))"
proof (cases "int (length (deltas s)) + 1 > max_deltas (cfg s)")
  case True
  then have "nat (max_deltas (cfg s)) \<le> length (deltas s) + 1" by linarith
  with True assms show ?thesis
    by (simp add: append_delta_deltas length_py_slice_from_neg min_def)
next
  case False
  then have "length (deltas s) + 1 \<le> nat (max_deltas (cfg s))" by linarith
  with False show ?thesis by (simp add: append_delta_deltas min_def)
qed

lemma on_pulse_deltas_length:
  assumes "1 \<le> max_deltas (cfg s)" "last_ts s = Some l" "l \<le> t"
  shows "length (deltas (on_pulse s t)) =
           min (length (deltas s) + 1) (nat (max_deltas (cfg s)))"
  using assms append_delta_length [of s "t - l"] by (simp add: on_pulse_deltas)

lemma pulses_deltas_length:
  assumes "1 \<le> max_deltas (cfg s)" "last_ts s = Some l" "sorted (l # tss)"
    and "length (deltas s) \<le> nat (max_deltas (cfg s))"
  shows "length (deltas (pulses s tss)) =
           min (length (deltas s) + length tss) (nat (max_deltas (cfg s)))"
  using assms
proof (induction tss arbitrary: s l)
  case Nil
  then show ?case by (simp add: pulses_Nil)
next
  case (Cons t tss)
  let ?s = "on_pulse s t"
  have lt: "l \<le> t" using Cons.prems(3) by simp
  have len: "length (deltas ?s) = min (length (deltas s) + 1) (nat (max_deltas (cfg s)))"
    using Cons.prems(1,2) lt by (rule on_pulse_deltas_length)
  have "length (deltas (pulses ?s tss)) =
          min (length (deltas ?s) + length tss) (nat (max_deltas (cfg ?s)))"
  proof (rule Cons.IH [of ?s t])
    show "1 \<le> max_deltas (cfg ?s)" using Cons.prems(1) by (simp add: on_pulse_fields)
    show "last_ts ?s = Some t" by (simp add: on_pulse_fields)
    show "sorted (t # tss)" using Cons.prems(3) by simp
    show "length (deltas ?s) \<le> nat (max_deltas (cfg ?s))"
      using len by (simp add: on_pulse_fields)
  qed
  then show ?case
    using len by (simp add: pulses_Cons on_pulse_fields min_def)
qed

lemma pulses_from_reset:
  assumes "1 \<le> max_deltas (cfg s)" "sorted tss" "tss \<noteq> []"
  shows "total_cnt (pulses (reset s now) tss) = int (length tss)
         \<and> int (length (deltas (pulses (reset s now) tss)))
             = min (int (length tss) - 1) (max_deltas (cfg s))"
proof -
  obtain t rest where tss: "tss = t # rest" using assms(3) by (cases tss) auto
  let ?s = "on_pulse (reset s now) t"
  have d: "deltas ?s = []" by (simp add: on_pulse_deltas)
  have "length (deltas (pulses ?s rest)) =
          min (length (deltas ?s) + length rest) (nat (max_deltas (cfg ?s)))"
  proof (rule pulses_deltas_length [of ?s t])
    show "1 \<le> max_deltas (cfg ?s)" using assms(1) by (simp add: on_pulse_fields)
    show "last_ts ?s = Some t" by (simp add: on_pulse_fields)
    show "sorted (t # rest)" using assms(2) tss by simp
    show "length (deltas ?s) \<le> nat (max_deltas (cfg ?s))" using d by simp
  qed
  then have "length (deltas (pulses (reset s now) tss)) = min (length rest) (nat (max_deltas (cfg s)))"
    using d by (simp add: tss pulses_Cons on_pulse_fields)
  then have "int (length (deltas (pulses (reset s now) tss)))
             = min (int (length tss) - 1) (max_deltas (cfg s))"
    using assms(1) unfolding tss min_def by (simp; linarith)
  then show ?thesis by (simp add: pulses_total)
qed

subsection \<open>Appending to a bounded buffer\<close>

lemma trim_keeps_new:
  assumes "0 \<le> m"
  shows "\<exists>k\<le>length xs.
           (if int (length xs) + 1 > m then py_slice_from (- m) (xs @ [x]) else xs @ [x])
             = drop k xs @ [x]"
proof (cases "int (length xs) + 1 > m")
  case False
  then show ?thesis by (intro exI [of _ 0]) simp
next
  case True
  show ?thesis
  proof (cases "m = 0")
    case True
    then show ?thesis by (intro exI [of _ 0]) (simp add: py_slice_from_zero)
  next
    case False
    with assms have m: "0 < m" by simp
    have k: "Suc (length xs) - nat m \<le> length xs" using m by linarith
    have "py_slice_from (- m) (xs @ [x]) = drop (Suc (length xs) - nat m) xs @ [x]"
      using m k by (simp add: py_slice_from_neg)
    with True k show ?thesis by (intro exI [of _ "Suc (length xs) - nat m"]) simp
  qed
qed

lemma ticks_from_reset:
  "int k \<le> max_series (cfg s) \<Longrightarrow>
     per_second ((tick_second ^^ k) (reset s now)) = replicate k 0
     \<and> current_second_count ((tick_second ^^ k) (reset s now)) = 0
     \<and> cfg ((tick_second ^^ k) (reset s now)) = cfg s"
proof (induction k)
  case 0
  show ?case by simp
next
  case (Suc k)
  then have IH: "per_second ((tick_second ^^ k) (reset s now)) = replicate k 0"
    "current_second_count ((tick_second ^^ k) (reset s now)) = 0"
    "cfg ((tick_second ^^ k) (reset s now)) = cfg s"
    by simp_all
  have "int k + 1 \<le> max_series (cfg s)" using Suc.prems by simp
  then show ?case
    using IH by (simp add: tick_second_fields tick_second_per_second replicate_append_same)
qed

lemma tick_second_length:
  assumes "1 \<le> max_series (cfg s)"
  shows "length (per_second (tick_second s))
           = min (length (per_second s) + 1) (nat (max_series (cfg s)))"
proof (cases "int (length (per_second s)) + 1 > max_series (cfg s)")
  case True
  then have "nat (max_series (cfg s)) \<le> length (per_second s) + 1" by linarith
  with True assms show ?thesis
    by (simp add: tick_second_per_second length_py_slice_from_neg min_def)
next
  case False
  then have "length (per_second s) + 1 \<le> nat (max_series (cfg s))" by linarith
  with False show ?thesis by (simp add: tick_second_per_second min_def)
qed

subsection \<open>Snapshot\<close>

lemma running_mean_loop_length:
  "length (running_mean_loop s i cs acc) = length acc + length cs"
  by (induction cs arbitrary: s i acc) simp_all

lemma running_mean_loop_prefix:
  "j < length acc \<Longrightarrow> running_mean_loop s i cs acc ! j = acc ! j"
  by (induction cs arbitrary: s i acc) (simp_all add: nth_append)

lemma running_mean_loop_nth:
  "j < length cs \<Longrightarrow>
     running_mean_loop s i cs acc ! (length acc + j)
       = real_of_int (s + sum_list (take (Suc j) cs)) / real (i + j)"
proof (induction cs arbitrary: s i acc j)
  case Nil
  then show ?case by simp
next
  case (Cons c cs)
  show ?case
  proof (cases j)
    case 0
    then show ?thesis
      using running_mean_loop_prefix [of "length acc" "acc @ [real_of_int (s + c) / real i]" "s + c" "Suc i" cs]
      by simp
  next
    case (Suc j')
    then have "j' < length cs" using Cons.prems by simp
    from Cons.IH [OF this, of "s + c" "Suc i" "acc @ [real_of_int (s + c) / real i]"]
    show ?thesis using Suc by (simp add: add.assoc)
  qed
qed

lemma snapshot_running_mean:
  "snap_running_mean (snapshot s now) = running_mean_loop 0 1 (per_second s) []"
  by (simp add: snapshot_def Let_def split: prod.splits)

lemma snapshot_per_second: "snap_per_second (snapshot s now) = per_second s"
  by (simp add: snapshot_def Let_def split: prod.splits)

lemma snapshot_last_age:
  "snap_last_age (snapshot s now) =
     (case last_ts s of None \<Rightarrow> None | Some l \<Rightarrow> if l = 0 then None else Some (now - l))"
  by (simp add: snapshot_def Let_def truthy_def split: prod.splits option.splits)

lemma snapshot_rates:
  "snap_rate_bq (snapshot s now) =
     (if max 0 (now - t0 s) > 0 then real_of_int (total_cnt s) / max 0 (now - t0 s) else 0)"
  "snap_rate_err (snapshot s now) =
     (if max 0 (now - t0 s) > 0 \<and> total_cnt s > 0
      then sqrt (real_of_int (total_cnt s)) / max 0 (now - t0 s) else 0)"
  "snap_total (snapshot s now) = total_cnt s"
  by (simp_all add: snapshot_def Let_def split: prod.splits)

lemma sqrt_100: "sqrt 100 = 10"
  using real_sqrt_abs [of 10] by simp

subsection \<open>Broadcast and start\<close>

lemma send_loop_result:
  "\<forall>ws\<in>set order. send ws \<noteq> Raises_BaseException \<Longrightarrow>
     send_loop send order received dead =
       Some (received @ filter (\<lambda>ws. send ws = Sent) order,
             dead @ filter (\<lambda>ws. send ws = Raises_Exception) order)"
proof (induction order arbitrary: received dead)
  case Nil
  show ?case by simp
next
  case (Cons ws rest)
  then show ?case by (cases "send ws") simp_all
qed

lemma discard_all_eq: "discard_all dead cs = cs - set dead"
  unfolding discard_all_def
  by (induction dead arbitrary: cs) auto

lemma discard_nothing: "E = {} \<Longrightarrow> m\<lparr>clients := clients m - E\<rparr> = m"
  by simp

lemma broadcast_result:
  assumes "\<forall>ws\<in>set order. send ws \<noteq> Raises_BaseException"
  shows "broadcast send order m =
           Some (m\<lparr>clients := clients m - {ws \<in> set order. send ws = Raises_Exception}\<rparr>,
                 filter (\<lambda>ws. send ws = Sent) order)"
proof (cases "filter (\<lambda>ws. send ws = Raises_Exception) order = []")
  case True
  then have "{ws \<in> set order. send ws = Raises_Exception} = {}"
    by (auto simp: filter_empty_conv)
  then have "m\<lparr>clients := clients m - {ws \<in> set order. send ws = Raises_Exception}\<rparr> = m"
    by (rule discard_nothing)
  with True show ?thesis
    using send_loop_result [OF assms, of "[]" "[]"] by (simp add: broadcast_def)
next
  case False
  have "set (filter (\<lambda>ws. send ws = Raises_Exception) order)
          = {ws \<in> set order. send ws = Raises_Exception}"
    by simp
  with False show ?thesis
    using send_loop_result [OF assms, of "[]" "[]"]
    by (simp add: broadcast_def discard_all_eq)
qed

lemma acquire_fails:
  "import_gpiozero env \<noteq> None \<or> LGPIOFactory env \<noteq> None \<or> DigitalInputDevice env \<noteq> None
   \<Longrightarrow> \<exists>e. acquire_gpiozero g env = Inl e"
  by (auto simp: acquire_gpiozero_def split: option.splits)

section \<open>Claims\<close>

text \<open>
  C1. The claim: in every reachable state \<^verbatim>\<open>len(deltas) <= max_deltas\<close> and
  \<^verbatim>\<open>len(per_second) <= max_series\<close>. With \<^verbatim>\<open>GEIGER_MAX_DELTAS=0\<close> the code does not keep
  this: the trimming statement \<^verbatim>\<open>self.deltas = self.deltas[-self.cfg.max_deltas:]\<close> is then
  \<^verbatim>\<open>self.deltas[0:]\<close>, the whole list. After the pulses at 0 and 1 the buffer holds one
  delta although the capacity is 0. (Lemma \<open>reachable_within_capacity\<close> above shows that
  the bound does hold in every reachable state when both capacities are at least 1.)
\<close>

theorem C1_zero_capacity_overflow:
  "max_deltas (cfg (run (init_state zero_capacity_config 0) [OnPulse 0, OnPulse 1])) = 0
   \<and> deltas (run (init_state zero_capacity_config 0) [OnPulse 0, OnPulse 1]) = [1]
   \<and> \<not> within_capacity (run (init_state zero_capacity_config 0) [OnPulse 0, OnPulse 1])"
  by (simp add: run_def init_state_def zero_capacity_config_def default_config_def
      on_pulse_def append_delta_def reset_def py_slice_from_def within_capacity_def Let_def)

text \<open>
  C2. The claim: after \<open>N \<ge> 1\<close> pulses with non-decreasing timestamps from a freshly reset
  state, \<^verbatim>\<open>total == N\<close> and \<^verbatim>\<open>len(deltas) == min(N-1, max_deltas)\<close>. With capacity 0 and
  the two pulses at 0 and 1 the code gives \<^verbatim>\<open>total == 2\<close> and one delta, where
  \<open>min (2 - 1) 0 = 0\<close>: the same slice \<^verbatim>\<open>[-0:]\<close> as in C1. (Lemma \<open>pulses_from_reset\<close> above
  shows both equations for every capacity of at least 1.)
\<close>

theorem C2_zero_capacity_count:
  "total_cnt (pulses (reset (init_state zero_capacity_config 0) 0) [0, 1]) = 2
   \<and> length (deltas (pulses (reset (init_state zero_capacity_config 0) 0) [0, 1])) = 1
   \<and> min (2 - 1) (max_deltas (cfg (reset (init_state zero_capacity_config 0) 0))) = 0"
  by (simp add: pulses_def init_state_def zero_capacity_config_def default_config_def
      on_pulse_def append_delta_def reset_def py_slice_from_def Let_def)

text \<open>
  C3, as amended. For every state and clock reading, \<^verbatim>\<open>elapsed = max(0, now - t0)\<close>; the rate
  is \<^verbatim>\<open>total / elapsed\<close> when \<^verbatim>\<open>elapsed > 0\<close> and 0 otherwise; the error is
  \<^verbatim>\<open>sqrt(total) / elapsed\<close> when \<^verbatim>\<open>total > 0\<close> and \<^verbatim>\<open>elapsed > 0\<close>, and 0 otherwise. The
  rate agrees with the specification's formula everywhere, the error agrees with it
  whenever \<^verbatim>\<open>elapsed > 0\<close>. A state with total 100 and elapsed time 10 yields rate 10 and
  error 1.
\<close>

theorem C3_rate_and_error:
  "snap_elapsed (snapshot s now) = max 0 (now - t0 s)
   \<and> snap_rate_bq (snapshot s now) =
       (if snap_elapsed (snapshot s now) > 0
        then real_of_int (total_cnt s) / snap_elapsed (snapshot s now) else 0)
   \<and> snap_rate_err (snapshot s now) =
       (if total_cnt s > 0 \<and> snap_elapsed (snapshot s now) > 0
        then sqrt (real_of_int (total_cnt s)) / snap_elapsed (snapshot s now) else 0)
   \<and> Inr (snap_rate_bq (snapshot s now)) = spec_rate (total_cnt s) (snap_elapsed (snapshot s now))
   \<and> (snap_elapsed (snapshot s now) > 0 \<longrightarrow>
        Inr (snap_rate_err (snapshot s now))
          = spec_rate_err (total_cnt s) (snap_elapsed (snapshot s now)))
   \<and> (total_cnt s = 100 \<and> snap_elapsed (snapshot s now) = 10 \<longrightarrow>
        snap_rate_bq (snapshot s now) = 10 \<and> snap_rate_err (snapshot s now) = 1)"
proof -
  have scen: "total_cnt s = 100 \<and> snap_elapsed (snapshot s now) = 10 \<longrightarrow>
        snap_rate_bq (snapshot s now) = 10 \<and> snap_rate_err (snapshot s now) = 1"
    using sqrt_100 by (auto simp: snapshot_rates)
  have rate: "Inr (snap_rate_bq (snapshot s now)) = spec_rate (total_cnt s) (snap_elapsed (snapshot s now))"
    by (auto simp: snapshot_rates spec_rate_def py_truediv_def)
  have err: "snap_elapsed (snapshot s now) > 0 \<longrightarrow>
        Inr (snap_rate_err (snapshot s now))
          = spec_rate_err (total_cnt s) (snap_elapsed (snapshot s now))"
    by (auto simp: snapshot_rates spec_rate_err_def py_truediv_def)
  show ?thesis
    using scen rate err by (simp add: snapshot_rates)
qed

text \<open>The scenario of the specification: total 100, ten seconds after the session start.\<close>

theorem C3_rate_and_error_witness:
  "total_cnt ((init_state default_config 0)\<lparr>total_cnt := 100\<rparr>) = 100
   \<and> snap_elapsed (snapshot ((init_state default_config 0)\<lparr>total_cnt := 100\<rparr>) 10) = 10
   \<and> snap_rate_bq (snapshot ((init_state default_config 0)\<lparr>total_cnt := 100\<rparr>) 10) = 10
   \<and> snap_rate_err (snapshot ((init_state default_config 0)\<lparr>total_cnt := 100\<rparr>) 10) = 1"
  using C3_rate_and_error [of "(init_state default_config 0)\<lparr>total_cnt := 100\<rparr>" 10]
  by (simp add: init_state_def reset_def)

text \<open>
  C3 as stated fails when \<^verbatim>\<open>total > 0\<close> and \<^verbatim>\<open>elapsed = 0\<close>: one pulse, and a snapshot at
  the clock reading of the session start. The specification's formula divides by zero
  there; the code, which tests \<^verbatim>\<open>elapsed > 0\<close> first, returns 0.
\<close>

theorem C3_rate_err_counterexample:
  "snap_total (snapshot (on_pulse (init_state default_config 7) 7) 7) = 1
   \<and> snap_elapsed (snapshot (on_pulse (init_state default_config 7) 7) 7) = 0
   \<and> snap_rate_err (snapshot (on_pulse (init_state default_config 7) 7) 7) = 0
   \<and> spec_rate_err 1 0 = Inl ZeroDivisionError
   \<and> Inr (snap_rate_err (snapshot (on_pulse (init_state default_config 7) 7) 7))
        \<noteq> spec_rate_err (snap_total (snapshot (on_pulse (init_state default_config 7) 7) 7))
                          (snap_elapsed (snapshot (on_pulse (init_state default_config 7) 7) 7))"
  by (simp add: snapshot_rates on_pulse_fields init_state_def spec_rate_err_def py_truediv_def)

text \<open>
  C4, as amended. In a state with a recorded last timestamp \<open>l\<close>, \<^verbatim>\<open>on_pulse(ts)\<close> always
  adds 1 to the total, sets the last timestamp to \<open>ts\<close> and adds 1 to the open-bin counter.
  With \<open>ts < l\<close> the deltas are unchanged. With \<open>ts \<ge> l\<close> and a capacity \<^verbatim>\<open>max_deltas\<close> that
  is not negative, exactly one delta \<open>ts - l\<close> is appended: the new buffer is a suffix of
  the old one followed by \<open>ts - l\<close>. It is the whole old buffer followed by \<open>ts - l\<close> while
  there is room, and for a capacity of at least 1 its length is
  \<open>min (length deltas + 1) max_deltas\<close>.
\<close>

theorem C4_on_pulse_step:
  assumes "last_ts s = Some l"
  shows "total_cnt (on_pulse s ts) = total_cnt s + 1
     \<and> last_ts (on_pulse s ts) = Some ts
     \<and> current_second_count (on_pulse s ts) = current_second_count s + 1
     \<and> (ts < l \<longrightarrow> deltas (on_pulse s ts) = deltas s)
     \<and> (l \<le> ts \<and> 0 \<le> max_deltas (cfg s) \<longrightarrow>
          (\<exists>k\<le>length (deltas s). deltas (on_pulse s ts) = drop k (deltas s) @ [ts - l]))
     \<and> (l \<le> ts \<and> int (length (deltas s)) < max_deltas (cfg s) \<longrightarrow>
          deltas (on_pulse s ts) = deltas s @ [ts - l])
     \<and> (l \<le> ts \<and> 1 \<le> max_deltas (cfg s) \<longrightarrow>
          length (deltas (on_pulse s ts))
            = min (length (deltas s) + 1) (nat (max_deltas (cfg s))))"
proof -
  have early: "ts < l \<longrightarrow> deltas (on_pulse s ts) = deltas s"
    using assms by (simp add: on_pulse_deltas)
  have d: "l \<le> ts \<Longrightarrow> deltas (on_pulse s ts) =
      (if int (length (deltas s)) + 1 > max_deltas (cfg s)
       then py_slice_from (- max_deltas (cfg s)) (deltas s @ [ts - l])
       else deltas s @ [ts - l])"
    using assms by (simp add: on_pulse_deltas append_delta_deltas)
  have kept: "l \<le> ts \<and> 0 \<le> max_deltas (cfg s) \<longrightarrow>
         (\<exists>k\<le>length (deltas s). deltas (on_pulse s ts) = drop k (deltas s) @ [ts - l])"
    using d trim_keeps_new [where xs = "deltas s" and m = "max_deltas (cfg s)" and x = "ts - l"]
    by simp
  have room: "l \<le> ts \<and> int (length (deltas s)) < max_deltas (cfg s) \<longrightarrow>
         deltas (on_pulse s ts) = deltas s @ [ts - l]"
    using d by simp
  have len: "l \<le> ts \<and> 1 \<le> max_deltas (cfg s) \<longrightarrow>
         length (deltas (on_pulse s ts))
           = min (length (deltas s) + 1) (nat (max_deltas (cfg s)))"
    using assms on_pulse_deltas_length [of s l ts] by blast
  show ?thesis
    using early kept room len by (simp add: on_pulse_fields)
qed

theorem C4_on_pulse_step_witness:
  "last_ts (on_pulse (init_state default_config 0) 5) = Some 5
   \<and> total_cnt (on_pulse (on_pulse (init_state default_config 0) 5) 3) = 2
   \<and> last_ts (on_pulse (on_pulse (init_state default_config 0) 5) 3) = Some 3
   \<and> deltas (on_pulse (on_pulse (init_state default_config 0) 5) 3) = []
   \<and> deltas (on_pulse (on_pulse (init_state default_config 0) 5) 7) = [2]"
proof -
  have h: "last_ts (on_pulse (init_state default_config 0) 5) = Some 5"
    by (simp add: on_pulse_fields)
  have d: "deltas (on_pulse (init_state default_config 0) 5) = []"
    by (simp add: on_pulse_deltas init_state_def)
  have t: "total_cnt (on_pulse (init_state default_config 0) 5) = 1"
    by (simp add: on_pulse_fields init_state_def)
  have c: "(0::int) < max_deltas (cfg (on_pulse (init_state default_config 0) 5))"
    by (simp add: on_pulse_fields init_state_def default_config_def)
  show ?thesis
    using C4_on_pulse_step [OF h, of 3] C4_on_pulse_step [OF h, of 7] h d t c by simp
qed

text \<open>
  C4 as stated fails for a negative capacity. With \<^verbatim>\<open>max_deltas = -1\<close> the trim is
  \<^verbatim>\<open>self.deltas[1:]\<close>: after the pulses at 0 and 1 the delta 1 has been appended and
  dropped again, and the buffer is as empty as before the second pulse.
\<close>

theorem C4_negative_capacity_counterexample:
  "max_deltas (cfg (on_pulse (init_state (default_config\<lparr>max_deltas := - 1\<rparr>) 0) 0)) = - 1
   \<and> last_ts (on_pulse (init_state (default_config\<lparr>max_deltas := - 1\<rparr>) 0) 0) = Some 0
   \<and> deltas (on_pulse (init_state (default_config\<lparr>max_deltas := - 1\<rparr>) 0) 0) = []
   \<and> deltas (on_pulse (on_pulse (init_state (default_config\<lparr>max_deltas := - 1\<rparr>) 0) 0) 1) = []"
  by (simp add: init_state_def default_config_def on_pulse_def append_delta_def reset_def
      py_slice_from_def Let_def)

text \<open>
  C5. One round of \<^verbatim>\<open>broadcast\<close> over an enumeration \<open>order\<close> of the registered set, in
  which no \<^verbatim>\<open>send_json\<close> raises outside \<^verbatim>\<open>Exception\<close>: the round completes; every
  registered subscriber whose delivery succeeds receives the message (once) and stays
  registered, whatever happened to the others; every subscriber whose delivery failed
  received nothing, is no longer registered afterwards, and so is in no enumeration of
  the registry that the next broadcast could use.
\<close>

theorem C5_broadcast_isolates_failures:
  assumes "set order = clients m" and "distinct order"
    and "\<forall>ws\<in>clients m. send ws \<noteq> Raises_BaseException"
  shows "\<exists>m' received.
           broadcast send order m = Some (m', received)
           \<and> distinct received
           \<and> set received = {ws \<in> clients m. send ws = Sent}
           \<and> clients m' = {ws \<in> clients m. send ws = Sent}
           \<and> (\<forall>ws\<in>clients m. send ws = Sent \<longrightarrow> ws \<in> set received \<and> ws \<in> clients m')
           \<and> (\<forall>ws\<in>clients m. send ws = Raises_Exception \<longrightarrow>
                 ws \<notin> set received \<and> ws \<notin> clients m'
                 \<and> (\<forall>order'. set order' = clients m' \<longrightarrow> ws \<notin> set order'))"
proof -
  let ?m' = "m\<lparr>clients := clients m - {ws \<in> set order. send ws = Raises_Exception}\<rparr>"
  let ?received = "filter (\<lambda>ws. send ws = Sent) order"
  have ok: "\<forall>ws\<in>set order. send ws \<noteq> Raises_BaseException"
    using assms(1,3) by simp
  have b: "broadcast send order m = Some (?m', ?received)"
    using ok by (rule broadcast_result)
  have d: "distinct ?received" using assms(2) by simp
  have r: "set ?received = {ws \<in> clients m. send ws = Sent}"
    using assms(1) by auto
  have c: "clients ?m' = {ws \<in> clients m. send ws = Sent}"
  proof -
    have "\<And>ws. ws \<in> clients m \<Longrightarrow> send ws \<noteq> Raises_Exception \<Longrightarrow> send ws = Sent"
      using assms(3) by (metis send_outcome.exhaust)
    then show ?thesis using assms(1) by auto
  qed
  show ?thesis
    using b d r c by (intro exI [of _ ?m'] exI [of _ ?received]) auto
qed

text \<open>The scenario of the specification: three subscribers, the second one fails.\<close>

theorem C5_broadcast_isolates_failures_witness:
  "clients (fst (the (broadcast (\<lambda>ws. if ws = 2 then Raises_Exception else Sent)
                     [1, 2, 3 :: nat] \<lparr>clients = {1, 2, 3}\<rparr>))) = {1, 3}
   \<and> set (snd (the (broadcast (\<lambda>ws. if ws = 2 then Raises_Exception else Sent)
                     [1, 2, 3 :: nat] \<lparr>clients = {1, 2, 3}\<rparr>))) = {1, 3}"
proof -
  let ?send = "\<lambda>ws::nat. if ws = 2 then Raises_Exception else Sent"
  let ?m = "\<lparr>clients = {1, 2, 3 :: nat}\<rparr>"
  have h1: "set [1, 2, 3 :: nat] = clients ?m" by auto
  have h2: "distinct [1, 2, 3 :: nat]" by simp
  have h3: "\<forall>ws\<in>clients ?m. ?send ws \<noteq> Raises_BaseException" by simp
  from C5_broadcast_isolates_failures [OF h1 h2 h3] obtain m' received where
    b: "broadcast ?send [1, 2, 3] ?m = Some (m', received)"
    and r: "set received = {ws \<in> clients ?m. ?send ws = Sent}"
    and c: "clients m' = {ws \<in> clients ?m. ?send ws = Sent}"
    by blast
  have "{ws \<in> clients ?m. ?send ws = Sent} = {1, 3}" by auto
  with b r c show ?thesis by simp
qed

text \<open>
  C6, as amended. \<^verbatim>\<open>start_geiger_reader\<close> of \<^verbatim>\<open>app.py\<close> never lets an exception of the
  hardware acquisition out: when one of its steps raises (and \<^verbatim>\<open>MOCK\<close> is off) it prints
  the warning and the detail, sets \<^verbatim>\<open>GEIGER_MOCK\<close> and runs the synthetic source; when none
  raises it runs the hardware source.
  \<^verbatim>\<open>GeigerReader.start\<close> of \<^verbatim>\<open>geiger.py\<close> has no such fallback. On a reader that is not
  started and not configured as mock, the first failure among \<^verbatim>\<open>GPIO.setmode\<close>,
  \<^verbatim>\<open>GPIO.setup\<close> and \<^verbatim>\<open>GPIO.add_event_detect\<close> leaves the call as that very exception,
  except that a \<^verbatim>\<open>RuntimeError\<close> of \<^verbatim>\<open>GPIO.add_event_detect\<close> is re-raised as the
  \<^verbatim>\<open>RuntimeError\<close> ``Failed to add edge detection'' on the configured pin; the reader is
  then marked started and otherwise unchanged, so no source runs. When all three calls
  return, the hardware source runs. The synthetic source runs after the call if and only if
  \<^verbatim>\<open>cfg.mock\<close> is set (on a reader that was not started and was not running it before); a
  started reader is left as it is.
\<close>

theorem C6_start_fallback:
  "(\<exists>a. start_geiger_reader g env = Inr a)
   \<and> (MOCK g \<longrightarrow>
        start_geiger_reader g env =
          Inr \<lparr>source = Synthetic, printed = [], environ_GEIGER_MOCK_set = False\<rparr>)
   \<and> (\<not> MOCK g \<and>
        (import_gpiozero env \<noteq> None \<or> LGPIOFactory env \<noteq> None \<or> DigitalInputDevice env \<noteq> None)
      \<longrightarrow> (\<exists>e. acquire_gpiozero g env = Inl e \<and>
             start_geiger_reader g env =
               Inr \<lparr>source = Synthetic, printed = [Warning_no_GPIO, Detalle e],
                    environ_GEIGER_MOCK_set = True\<rparr>))
   \<and> (\<not> MOCK g \<and>
        import_gpiozero env = None \<and> LGPIOFactory env = None \<and> DigitalInputDevice env = None
      \<longrightarrow> start_geiger_reader g env =
            Inr \<lparr>source = Hardware_gpiozero (if PULL_UP g then When_deactivated else When_activated),
                 printed = [], environ_GEIGER_MOCK_set = False\<rparr>)
   \<and> (started r \<longrightarrow> GeigerReader_start genv r = (None, r))
   \<and> (\<not> started r \<and> mock (reader_cfg r) \<longrightarrow>
        GeigerReader_start genv r = (None, start_mock (r\<lparr>started := True\<rparr>))
        \<and> reader_source (snd (GeigerReader_start genv r)) = Some Synthetic)
   \<and> (\<not> started r \<and> \<not> mock (reader_cfg r) \<and> gpio_setmode genv = Some x \<longrightarrow>
        GeigerReader_start genv r = (Some x, r\<lparr>started := True\<rparr>))
   \<and> (\<not> started r \<and> \<not> mock (reader_cfg r) \<and> gpio_setmode genv = None
        \<and> gpio_setup genv = Some x \<longrightarrow>
        GeigerReader_start genv r = (Some x, r\<lparr>started := True\<rparr>))
   \<and> (\<not> started r \<and> \<not> mock (reader_cfg r) \<and> gpio_setmode genv = None
        \<and> gpio_setup genv = None \<and> gpio_add_event_detect genv = Some x \<longrightarrow>
        GeigerReader_start genv r =
          (Some (if is_RuntimeError x
                 then Failed_to_add_edge_detection (pin (reader_cfg r)) x else x),
           r\<lparr>started := True\<rparr>))
   \<and> (\<not> started r \<and> \<not> mock (reader_cfg r) \<and> gpio_setmode genv = None
        \<and> gpio_setup genv = None \<and> gpio_add_event_detect genv = None \<longrightarrow>
        GeigerReader_start genv r =
          (None,
           r\<lparr>started := True, reader_source := Some Hardware_RPi_GPIO,
             reader_printed :=
               reader_printed r @
               (if verbose (reader_cfg r) then [Edge_detect_on (pin (reader_cfg r))] else [])\<rparr>))
   \<and> (\<not> started r \<and> reader_source r \<noteq> Some Synthetic \<longrightarrow>
        (reader_source (snd (GeigerReader_start genv r)) = Some Synthetic
           \<longleftrightarrow> mock (reader_cfg r)))"
proof -
  have a: "\<exists>a. start_geiger_reader g env = Inr a"
    by (simp add: start_geiger_reader_def split: sum.splits)
  have a2: "MOCK g \<longrightarrow>
        start_geiger_reader g env =
          Inr \<lparr>source = Synthetic, printed = [], environ_GEIGER_MOCK_set = False\<rparr>"
    by (simp add: start_geiger_reader_def)
  have b: "\<not> MOCK g \<and>
        (import_gpiozero env \<noteq> None \<or> LGPIOFactory env \<noteq> None \<or> DigitalInputDevice env \<noteq> None)
      \<longrightarrow> (\<exists>e. acquire_gpiozero g env = Inl e \<and>
             start_geiger_reader g env =
               Inr \<lparr>source = Synthetic, printed = [Warning_no_GPIO, Detalle e],
                    environ_GEIGER_MOCK_set = True\<rparr>)"
    using acquire_fails [of env g] by (auto simp: start_geiger_reader_def)
  have b2: "\<not> MOCK g \<and>
        import_gpiozero env = None \<and> LGPIOFactory env = None \<and> DigitalInputDevice env = None
      \<longrightarrow> start_geiger_reader g env =
            Inr \<lparr>source = Hardware_gpiozero (if PULL_UP g then When_deactivated else When_activated),
                 printed = [], environ_GEIGER_MOCK_set = False\<rparr>"
    by (simp add: start_geiger_reader_def acquire_gpiozero_def)
  have c0: "started r \<longrightarrow> GeigerReader_start genv r = (None, r)"
    by (simp add: GeigerReader_start_def)
  have c1: "\<not> started r \<and> mock (reader_cfg r) \<longrightarrow>
        GeigerReader_start genv r = (None, start_mock (r\<lparr>started := True\<rparr>))
        \<and> reader_source (snd (GeigerReader_start genv r)) = Some Synthetic"
    by (simp add: GeigerReader_start_def Let_def start_mock_def)
  have c2: "\<not> started r \<and> \<not> mock (reader_cfg r) \<and> gpio_setmode genv = Some x \<longrightarrow>
        GeigerReader_start genv r = (Some x, r\<lparr>started := True\<rparr>)"
    by (simp add: GeigerReader_start_def Let_def)
  have c3: "\<not> started r \<and> \<not> mock (reader_cfg r) \<and> gpio_setmode genv = None
        \<and> gpio_setup genv = Some x \<longrightarrow>
        GeigerReader_start genv r = (Some x, r\<lparr>started := True\<rparr>)"
    by (simp add: GeigerReader_start_def Let_def)
  have c4: "\<not> started r \<and> \<not> mock (reader_cfg r) \<and> gpio_setmode genv = None
        \<and> gpio_setup genv = None \<and> gpio_add_event_detect genv = Some x \<longrightarrow>
        GeigerReader_start genv r =
          (Some (if is_RuntimeError x
                 then Failed_to_add_edge_detection (pin (reader_cfg r)) x else x),
           r\<lparr>started := True\<rparr>)"
    by (simp add: GeigerReader_start_def Let_def)
  have c5: "\<not> started r \<and> \<not> mock (reader_cfg r) \<and> gpio_setmode genv = None
        \<and> gpio_setup genv = None \<and> gpio_add_event_detect genv = None \<longrightarrow>
        GeigerReader_start genv r =
          (None,
           r\<lparr>started := True, reader_source := Some Hardware_RPi_GPIO,
             reader_printed :=
               reader_printed r @
               (if verbose (reader_cfg r) then [Edge_detect_on (pin (reader_cfg r))] else [])\<rparr>)"
    by (simp add: GeigerReader_start_def Let_def)
  have c6: "\<not> started r \<and> reader_source r \<noteq> Some Synthetic \<longrightarrow>
        (reader_source (snd (GeigerReader_start genv r)) = Some Synthetic
           \<longleftrightarrow> mock (reader_cfg r))"
    by (auto simp: GeigerReader_start_def Let_def start_mock_def split: option.splits)
  show ?thesis
    using a a2 b b2 c0 c1 c2 c3 c4 c5 c6 by blast
qed

theorem C6_start_fallback_witness:
  "start_geiger_reader \<lparr>PIN = 18, PULL_UP = False, MOCK = False, MOCK_RATE = 5\<rparr>
     \<lparr>import_gpiozero = Some ImportError, LGPIOFactory = None, DigitalInputDevice = None\<rparr>
     = Inr \<lparr>source = Synthetic, printed = [Warning_no_GPIO, Detalle ImportError],
            environ_GEIGER_MOCK_set = True\<rparr>
   \<and> GeigerReader_start
        \<lparr>gpio_cleanup = None, gpio_setmode = None, gpio_setup = Some OSError,
         gpio_remove_event_detect = None, gpio_add_event_detect = None\<rparr>
        (new_reader default_config)
      = (Some OSError, (new_reader default_config)\<lparr>started := True\<rparr>)
   \<and> GeigerReader_start
        \<lparr>gpio_cleanup = None, gpio_setmode = None, gpio_setup = None,
         gpio_remove_event_detect = None, gpio_add_event_detect = Some RuntimeError\<rparr>
        (new_reader (default_config\<lparr>pin := 4\<rparr>))
      = (Some (Failed_to_add_edge_detection 4 RuntimeError),
         (new_reader (default_config\<lparr>pin := 4\<rparr>))\<lparr>started := True\<rparr>)
   \<and> reader_source (snd (GeigerReader_start
        \<lparr>gpio_cleanup = None, gpio_setmode = None, gpio_setup = Some OSError,
         gpio_remove_event_detect = None, gpio_add_event_detect = None\<rparr>
        (new_reader (default_config\<lparr>mock := True\<rparr>)))) = Some Synthetic
   \<and> reader_source (snd (GeigerReader_start
        \<lparr>gpio_cleanup = None, gpio_setmode = None, gpio_setup = None,
         gpio_remove_event_detect = None, gpio_add_event_detect = None\<rparr>
        (new_reader default_config))) = Some Hardware_RPi_GPIO"
proof -
  let ?g = "\<lparr>PIN = 18, PULL_UP = False, MOCK = False, MOCK_RATE = 5\<rparr>"
  let ?env = "\<lparr>import_gpiozero = Some ImportError, LGPIOFactory = None,
                DigitalInputDevice = None\<rparr>"
  let ?setup_fails = "\<lparr>gpio_cleanup = None, gpio_setmode = None, gpio_setup = Some OSError,
         gpio_remove_event_detect = None, gpio_add_event_detect = None\<rparr>"
  let ?edge_fails = "\<lparr>gpio_cleanup = None, gpio_setmode = None, gpio_setup = None,
         gpio_remove_event_detect = None, gpio_add_event_detect = Some RuntimeError\<rparr>"
  let ?works = "\<lparr>gpio_cleanup = None, gpio_setmode = None, gpio_setup = None,
         gpio_remove_event_detect = None, gpio_add_event_detect = None\<rparr>"
  have w1: "start_geiger_reader ?g ?env
     = Inr \<lparr>source = Synthetic, printed = [Warning_no_GPIO, Detalle ImportError],
            environ_GEIGER_MOCK_set = True\<rparr>"
    using C6_start_fallback [where g = ?g and env = ?env and r = "new_reader default_config"
                 and genv = ?works and x = OSError]
    by (simp add: acquire_gpiozero_def)
  have w2: "GeigerReader_start ?setup_fails (new_reader default_config)
      = (Some OSError, (new_reader default_config)\<lparr>started := True\<rparr>)"
    using C6_start_fallback [where g = ?g and env = ?env and r = "new_reader default_config"
                 and genv = ?setup_fails and x = OSError]
    by (simp add: new_reader_def default_config_def)
  have w3: "GeigerReader_start ?edge_fails (new_reader (default_config\<lparr>pin := 4\<rparr>))
      = (Some (Failed_to_add_edge_detection 4 RuntimeError),
         (new_reader (default_config\<lparr>pin := 4\<rparr>))\<lparr>started := True\<rparr>)"
    using C6_start_fallback [where g = ?g and env = ?env and r = "new_reader (default_config\<lparr>pin := 4\<rparr>)"
                 and genv = ?edge_fails and x = RuntimeError]
    by (simp add: new_reader_def default_config_def)
  have w4: "reader_source (snd (GeigerReader_start ?setup_fails
        (new_reader (default_config\<lparr>mock := True\<rparr>)))) = Some Synthetic"
    using C6_start_fallback [where g = ?g and env = ?env and r = "new_reader (default_config\<lparr>mock := True\<rparr>)"
                 and genv = ?setup_fails and x = OSError]
    by (simp add: new_reader_def default_config_def start_mock_def)
  have w5: "reader_source (snd (GeigerReader_start ?works (new_reader default_config)))
      = Some Hardware_RPi_GPIO"
    using C6_start_fallback [where g = ?g and env = ?env and r = "new_reader default_config"
                 and genv = ?works and x = OSError]
    by (simp add: new_reader_def default_config_def)
  show ?thesis using w1 w2 w3 w4 w5 by simp
qed

text \<open>
  C6 as stated fails for \<^verbatim>\<open>GeigerReader.start\<close>: when \<^verbatim>\<open>GPIO.add_event_detect\<close> raises a
  \<^verbatim>\<open>RuntimeError\<close>, the call raises \<^verbatim>\<open>RuntimeError("Failed to add edge detection on GPIO18")\<close>
  and no source is running.
\<close>

theorem C6_start_propagates_counterexample:
  "gpio_add_event_detect
     \<lparr>gpio_cleanup = None, gpio_setmode = None, gpio_setup = None,
      gpio_remove_event_detect = None, gpio_add_event_detect = Some RuntimeError\<rparr>
     = Some RuntimeError
   \<and> \<not> mock (reader_cfg (new_reader default_config))
   \<and> GeigerReader_start
       \<lparr>gpio_cleanup = None, gpio_setmode = None, gpio_setup = None,
        gpio_remove_event_detect = None, gpio_add_event_detect = Some RuntimeError\<rparr>
       (new_reader default_config)
     = (Some (Failed_to_add_edge_detection 18 RuntimeError),
        \<lparr>reader_cfg = default_config, started = True, reader_source = None, reader_printed = []\<rparr>)"
  by (simp add: GeigerReader_start_def new_reader_def default_config_def Let_def)

text \<open>
  C7. \<^verbatim>\<open>reset()\<close> is idempotent up to the new session start time. After one reset of any
  state, and equally after a second consecutive one, the total is 0, both buffers are
  empty, the open-bin counter is 0 and there is no last timestamp; two consecutive resets
  give the very state that the second one alone gives. A snapshot taken at clock reading
  \<open>now'\<close> after a reset at \<open>now\<close> reports \<open>max 0 (now' - now)\<close> as elapsed time: 0 at the same
  reading, and at most \<open>eps\<close> when the clock has advanced by at most \<open>eps\<close>.
\<close>

theorem C7_reset_idempotent:
  "total_cnt (reset s now) = 0 \<and> deltas (reset s now) = [] \<and> per_second (reset s now) = []
   \<and> current_second_count (reset s now) = 0 \<and> last_ts (reset s now) = None
   \<and> t0 (reset s now) = now
   \<and> reset (reset s now) now2 = reset s now2
   \<and> total_cnt (reset (reset s now) now2) = 0 \<and> deltas (reset (reset s now) now2) = []
   \<and> per_second (reset (reset s now) now2) = []
   \<and> current_second_count (reset (reset s now) now2) = 0
   \<and> last_ts (reset (reset s now) now2) = None
   \<and> snap_total (snapshot (reset s now) now') = 0
   \<and> snap_elapsed (snapshot (reset s now) now') = max 0 (now' - now)
   \<and> snap_elapsed (snapshot (reset s now) now) = 0
   \<and> (0 \<le> eps \<and> now' \<le> now + eps \<longrightarrow> snap_elapsed (snapshot (reset s now) now') \<le> eps)
   \<and> snap_elapsed (snapshot (reset (reset s now) now2) now2) = 0"
proof -
  have idem: "reset (reset s now) now2 = reset s now2"
    by (simp add: reset_def)
  have tot: "snap_total (snapshot (reset s now) now') = 0"
    by (simp add: snapshot_def Let_def split: prod.splits)
  have near: "0 \<le> eps \<and> now' \<le> now + eps \<longrightarrow> snap_elapsed (snapshot (reset s now) now') \<le> eps"
    by auto
  show ?thesis
    using idem tot near by simp
qed

theorem C7_reset_idempotent_witness:
  "(0::real) \<le> 1 / 2 \<and> (10::real) + 1 / 4 \<le> 10 + 1 / 2
   \<and> snap_elapsed (snapshot (reset (on_pulse (init_state default_config 3) 4) 10) (10 + 1 / 4)) \<le> 1 / 2
   \<and> total_cnt (reset (reset (on_pulse (init_state default_config 3) 4) 10) 11) = 0"
  using C7_reset_idempotent [of "on_pulse (init_state default_config 3) 4" 10 11 "10 + 1 / 4" "1 / 2"]
  by simp

text \<open>
  C8. The list \<^verbatim>\<open>running_mean\<close> of a snapshot has the length of \<^verbatim>\<open>per_second\<close>, and its
  entry \<open>i\<close> is the sum of \<^verbatim>\<open>per_second[0..i]\<close> divided by \<open>i + 1\<close>.
\<close>

theorem C8_running_mean:
  "length (snap_running_mean (snapshot s now)) = length (per_second s)
   \<and> length (snap_running_mean (snapshot s now)) = length (snap_per_second (snapshot s now))
   \<and> (\<forall>i<length (per_second s).
         snap_running_mean (snapshot s now) ! i
           = real_of_int (sum_list (take (i + 1) (per_second s))) / real (i + 1))"
proof -
  have "\<forall>i<length (per_second s).
         running_mean_loop 0 1 (per_second s) [] ! i
           = real_of_int (sum_list (take (i + 1) (per_second s))) / real (i + 1)"
    using running_mean_loop_nth [of _ "per_second s" 0 1 "[]"] by simp
  then show ?thesis
    by (simp add: snapshot_running_mean snapshot_per_second running_mean_loop_length)
qed

theorem C8_running_mean_witness:
  "(1::nat) < length (per_second (run (init_state default_config 0) [OnPulse 1, OnPulse 2, OnPulse 3, TickSecond, OnPulse 4, TickSecond, TickSecond]))
   \<and> snap_running_mean (snapshot (run (init_state default_config 0) [OnPulse 1, OnPulse 2, OnPulse 3, TickSecond, OnPulse 4, TickSecond, TickSecond]) 9) ! 1 = 2"
  using C8_running_mean [of "run (init_state default_config 0) [OnPulse 1, OnPulse 2, OnPulse 3, TickSecond, OnPulse 4, TickSecond, TickSecond]" 9]
  by (simp add: run_def init_state_def default_config_def on_pulse_fields tick_second_fields
      tick_second_per_second)

text \<open>
  C9. The claim: \<^verbatim>\<open>last_age = now - last_ts\<close> whenever a pulse has occurred, for every value
  of the recorded timestamp. \<^verbatim>\<open>snapshot\<close> tests the truth value of \<^verbatim>\<open>self.last_ts\<close>, where
  \<^verbatim>\<open>on_pulse\<close> tests \<^verbatim>\<open>is not None\<close>: after a pulse with timestamp 0.0 the total is 1 and the
  last timestamp is recorded, and yet the snapshot at clock reading 5 reports no
  \<^verbatim>\<open>last_age\<close>. (Lemma \<open>snapshot_last_age\<close> above gives the value in every case.)
\<close>

theorem C9_last_age_zero_timestamp:
  "total_cnt (on_pulse (init_state default_config 0) 0) = 1
   \<and> last_ts (on_pulse (init_state default_config 0) 0) = Some 0
   \<and> snap_last_age (snapshot (on_pulse (init_state default_config 0) 0) 5) = None"
  by (simp add: snapshot_last_age on_pulse_fields init_state_def)

text \<open>
  C10, as amended. Every call to \<^verbatim>\<open>tick_second\<close> resets the open-bin counter to 0. When the
  capacity \<^verbatim>\<open>max_series\<close> is not negative it appends exactly one entry, the open-bin count
  (which may be 0): the new \<^verbatim>\<open>per_second\<close> is a suffix of the old one followed by the count.
  It is the whole old list followed by the count while there is room, and for a capacity
  of at least 1 its length is \<open>min (length per_second + 1) max_series\<close>. Hence \<open>n\<close> ticks
  after a reset, with \<open>n\<close> at most \<^verbatim>\<open>max_series\<close>, leave a list of \<open>n\<close> zeros.
\<close>

theorem C10_tick_second:
  "current_second_count (tick_second s) = 0
   \<and> (0 \<le> max_series (cfg s) \<longrightarrow>
        (\<exists>k\<le>length (per_second s).
           per_second (tick_second s) = drop k (per_second s) @ [current_second_count s]))
   \<and> (int (length (per_second s)) < max_series (cfg s) \<longrightarrow>
        per_second (tick_second s) = per_second s @ [current_second_count s])
   \<and> (1 \<le> max_series (cfg s) \<longrightarrow>
        length (per_second (tick_second s))
          = min (length (per_second s) + 1) (nat (max_series (cfg s))))
   \<and> (int n \<le> max_series (cfg s) \<longrightarrow>
        per_second ((tick_second ^^ n) (reset s now)) = replicate n 0)"
proof -
  have room: "int (length (per_second s)) < max_series (cfg s) \<longrightarrow>
        per_second (tick_second s) = per_second s @ [current_second_count s]"
    by (simp add: tick_second_per_second)
  have kept: "0 \<le> max_series (cfg s) \<longrightarrow>
        (\<exists>k\<le>length (per_second s).
           per_second (tick_second s) = drop k (per_second s) @ [current_second_count s])"
    using trim_keeps_new [where xs = "per_second s" and m = "max_series (cfg s)" and x = "current_second_count s"]
    by (simp add: tick_second_per_second)
  have len: "1 \<le> max_series (cfg s) \<longrightarrow>
        length (per_second (tick_second s))
          = min (length (per_second s) + 1) (nat (max_series (cfg s)))"
    using tick_second_length [of s] by blast
  have zeros: "int n \<le> max_series (cfg s) \<longrightarrow>
        per_second ((tick_second ^^ n) (reset s now)) = replicate n 0"
    using ticks_from_reset [of n s now] by simp
  show ?thesis
    using room kept len zeros by (simp add: tick_second_fields)
qed

theorem C10_tick_second_witness:
  "int 3 \<le> max_series (cfg (init_state default_config 0))
   \<and> per_second ((tick_second ^^ 3) (reset (init_state default_config 0) 1)) = [0, 0, 0]
   \<and> per_second (tick_second (on_pulse (init_state default_config 0) 4)) = [1]
   \<and> current_second_count (tick_second (on_pulse (init_state default_config 0) 4)) = 0"
  using C10_tick_second [of "init_state default_config 0" 3 1]
        C10_tick_second [of "on_pulse (init_state default_config 0) 4" 0 0]
  by (simp add: init_state_def default_config_def numeral_3_eq_3 on_pulse_fields)

text \<open>
  C10 as stated fails for a negative capacity. With \<^verbatim>\<open>max_series = -1\<close> the trim is
  \<^verbatim>\<open>self.per_second[1:]\<close>: the tick after one pulse appends the count 1 and drops it again,
  and \<^verbatim>\<open>per_second\<close> stays empty.
\<close>

theorem C10_negative_capacity_counterexample:
  "max_series (cfg (on_pulse (init_state (default_config\<lparr>max_series := - 1\<rparr>) 0) 0)) = - 1
   \<and> current_second_count (on_pulse (init_state (default_config\<lparr>max_series := - 1\<rparr>) 0) 0) = 1
   \<and> per_second (on_pulse (init_state (default_config\<lparr>max_series := - 1\<rparr>) 0) 0) = []
   \<and> per_second (tick_second (on_pulse (init_state (default_config\<lparr>max_series := - 1\<rparr>) 0) 0)) = []"
  by (simp add: init_state_def default_config_def on_pulse_def tick_second_def reset_def
      py_slice_from_def Let_def)

end
